theory Spec2Isabelle
  imports Main
begin

section \<open>Python values, exceptions and output event streams\<close>

text \<open>
  The blocks of \<^verbatim>\<open>backend/blocks/basic.py\<close> work on dynamically typed data
  (\<^verbatim>\<open>Any\<close>). The value universe below covers \<^verbatim>\<open>None\<close>, booleans, unbounded
  integers, strings, lists, dictionaries and attribute-carrying instances such as
  \<^verbatim>\<open>MockObject(**kwargs)\<close>; an instance carries an identity, since Python compares
  such objects by identity. Dictionaries are association lists in insertion order, keyed
  by the hashable values the blocks use as keys (\<^verbatim>\<open>str | int\<close>). Floating-point
  numbers are left out of the universe.
\<close>

datatype pykey = KStr string | KInt int

datatype pyval =
    PNone
  | PBool bool
  | PInt int
  | PStr string
  | PList "pyval list"
  | PDict "(pykey \<times> pyval) list"
  | PObj nat "(string \<times> pyval) list"

datatype exn_class =
    ValueError | TypeError | KeyError | IndexError | AttributeError
  | JSONDecodeError | OtherException

text \<open>An exception instance: its class and \<^verbatim>\<open>str(e)\<close>. The texts of the exceptions
  the Python runtime raises by itself are abbreviated, except where a routine puts the text
  into an event.\<close>

datatype exn = Exn (exn_class: exn_class) (exn_str: string)

text \<open>\<^verbatim>\<open>except ValueError\<close> also catches the subclass \<^verbatim>\<open>json.JSONDecodeError\<close>;
  \<^verbatim>\<open>except Exception\<close> catches every class modelled here.\<close>

fun is_ValueError :: "exn \<Rightarrow> bool" where
  "is_ValueError (Exn c _) = (c = ValueError \<or> c = JSONDecodeError)"

definition is_Exception :: "exn \<Rightarrow> bool" where
  "is_Exception e = True"

text \<open>
  \<^verbatim>\<open>BlockOutput\<close>: one invocation of an asynchronous generator is the list of
  \<^verbatim>\<open>(field_name, value)\<close> pairs it yielded, in order, and the exception that ended
  it, if one escaped.
\<close>

type_synonym event = "string \<times> pyval"
type_synonym block_output = "event list \<times> exn option"

definition emit :: "string \<Rightarrow> pyval \<Rightarrow> block_output" where
  "emit name v = ([(name, v)], None)"

definition raise_exn :: "exn \<Rightarrow> block_output" where
  "raise_exn e = ([], Some e)"

definition then_do :: "block_output \<Rightarrow> block_output \<Rightarrow> block_output" where
  "then_do g h =
     (case snd g of
        Some e \<Rightarrow> g
      | None \<Rightarrow> (fst g @ fst h, snd h))"

text \<open>Evaluating an expression that may raise before the statement using it runs.\<close>

definition eval_then :: "exn + 'a \<Rightarrow> ('a \<Rightarrow> block_output) \<Rightarrow> block_output" where
  "eval_then r k = (case r of Inl e \<Rightarrow> raise_exn e | Inr v \<Rightarrow> k v)"

text \<open>\<^verbatim>\<open>try: body except C as e: handler\<close>; events yielded before the exception stay.\<close>

definition try_except ::
  "block_output \<Rightarrow> (exn \<Rightarrow> bool) \<Rightarrow> (exn \<Rightarrow> block_output) \<Rightarrow> block_output" where
  "try_except body catches handler =
     (case snd body of
        None \<Rightarrow> body
      | Some e \<Rightarrow>
          if catches e then then_do (fst body, None) (handler e) else body)"

subsection \<open>Truthiness and equality\<close>

fun py_truthy :: "pyval \<Rightarrow> bool" where
  "py_truthy PNone = False"
| "py_truthy (PBool b) = b"
| "py_truthy (PInt i) = (i \<noteq> 0)"
| "py_truthy (PStr s) = (s \<noteq> [])"
| "py_truthy (PList xs) = (xs \<noteq> [])"
| "py_truthy (PDict d) = (d \<noteq> [])"
| "py_truthy (PObj _ _) = True"

text \<open>\<^verbatim>\<open>a or b\<close> is \<^verbatim>\<open>a\<close> when \<^verbatim>\<open>a\<close> is truthy and \<^verbatim>\<open>b\<close> otherwise.\<close>

definition py_or :: "pyval \<Rightarrow> pyval \<Rightarrow> pyval" where
  "py_or a b = (if py_truthy a then a else b)"

text \<open>
  \<^verbatim>\<open>==\<close>: \<^verbatim>\<open>True == 1\<close> and \<^verbatim>\<open>False == 0\<close>, lists compare element by
  element, dictionaries compare as mappings whatever their insertion order, instances
  compare by identity.
\<close>

fun py_eq :: "pyval \<Rightarrow> pyval \<Rightarrow> bool"
  and py_eq_list :: "pyval list \<Rightarrow> pyval list \<Rightarrow> bool"
  and py_sub_dict :: "(pykey \<times> pyval) list \<Rightarrow> (pykey \<times> pyval) list \<Rightarrow> bool"
where
  "py_eq PNone PNone = True"
| "py_eq (PBool a) (PBool b) = (a = b)"
| "py_eq (PBool a) (PInt j) = (j = (if a then 1 else 0))"
| "py_eq (PInt i) (PBool b) = (i = (if b then 1 else 0))"
| "py_eq (PInt i) (PInt j) = (i = j)"
| "py_eq (PStr s) (PStr t) = (s = t)"
| "py_eq (PList xs) (PList ys) = py_eq_list xs ys"
| "py_eq (PDict d) (PDict e) = (length d = length e \<and> py_sub_dict d e)"
| "py_eq (PObj i _) (PObj j _) = (i = j)"
| "py_eq _ _ = False"
| "py_eq_list [] [] = True"
| "py_eq_list (x # xs) (y # ys) = (py_eq x y \<and> py_eq_list xs ys)"
| "py_eq_list _ _ = False"
| "py_sub_dict [] e = True"
| "py_sub_dict ((k, v) # d) e =
     ((case map_of e k of None \<Rightarrow> False | Some w \<Rightarrow> py_eq v w) \<and> py_sub_dict d e)"

section \<open>StoreValueBlock\<close>

record StoreValueBlock_Input =
  sv_input :: pyval
  sv_data :: pyval

definition StoreValueBlock_Output :: "string list" where
  "StoreValueBlock_Output = [''output'']"

definition StoreValueBlock_run :: "StoreValueBlock_Input \<Rightarrow> block_output" where
  "StoreValueBlock_run input_data =
     emit ''output'' (py_or (sv_data input_data) (sv_input input_data))"

section \<open>UniversalTypeConverterBlock\<close>

datatype TypeOptions = STRING | NUMBER | BOOLEAN | LIST | DICTIONARY

datatype py_type = T_str | T_float | T_bool | T_list | T_dict

fun target_type :: "TypeOptions \<Rightarrow> py_type" where
  "target_type STRING = T_str"
| "target_type NUMBER = T_float"
| "target_type BOOLEAN = T_bool"
| "target_type LIST = T_list"
| "target_type DICTIONARY = T_dict"

record UniversalTypeConverterBlock_Input =
  utc_value :: pyval
  utc_type :: TypeOptions

definition UniversalTypeConverterBlock_Output :: "string list" where
  "UniversalTypeConverterBlock_Output = [''value'']"

text \<open>
  \<^verbatim>\<open>backend.util.type.convert\<close> is an external collaborator: it is the parameter
  \<open>convert\<close>, returning the converted value or the exception it raised.
\<close>

definition UniversalTypeConverterBlock_run ::
  "(pyval \<Rightarrow> py_type \<Rightarrow> exn + pyval) \<Rightarrow> UniversalTypeConverterBlock_Input \<Rightarrow> block_output" where
  "UniversalTypeConverterBlock_run convert input_data =
     try_except
       (eval_then (convert (utc_value input_data) (target_type (utc_type input_data)))
          (\<lambda>converted_value. emit ''value'' converted_value))
       is_Exception
       (\<lambda>e. emit ''error'' (PStr (''Failed to convert value: '' @ exn_str e)))"

section \<open>Sequence primitives\<close>

text \<open>
  A slice bound: negative bounds count from the end, and every bound is clamped to the
  length of the sequence (\<^verbatim>\<open>xs[:pos]\<close>, \<^verbatim>\<open>xs[pos:]\<close>, \<^verbatim>\<open>xs[i : i + n]\<close>).
\<close>

definition slice_bound :: "nat \<Rightarrow> int \<Rightarrow> nat" where
  "slice_bound n k = (if k < 0 then nat (max 0 (int n + k)) else min (nat k) n)"

definition py_slice :: "'a list \<Rightarrow> int option \<Rightarrow> int option \<Rightarrow> 'a list" where
  "py_slice xs lo hi =
     (let n = length xs;
          l = (case lo of None \<Rightarrow> 0 | Some k \<Rightarrow> slice_bound n k);
          h = (case hi of None \<Rightarrow> n | Some k \<Rightarrow> slice_bound n k)
      in take (h - l) (drop l xs))"

text \<open>\<^verbatim>\<open>xs.index(v)\<close>: the position of the first element equal to \<^verbatim>\<open>v\<close>.\<close>

fun first_index :: "pyval list \<Rightarrow> pyval \<Rightarrow> nat option" where
  "first_index [] v = None"
| "first_index (x # xs) v =
     (if py_eq x v then Some 0 else map_option Suc (first_index xs v))"

definition py_list_index :: "pyval list \<Rightarrow> pyval \<Rightarrow> exn + int" where
  "py_list_index xs v =
     (case first_index xs v of
        None \<Rightarrow> Inl (Exn ValueError ''list.index(x): x not in list'')
      | Some i \<Rightarrow> Inr (int i))"

text \<open>\<^verbatim>\<open>range(start, stop, step)\<close> as the list of its values; a zero step raises.\<close>

function range_up :: "int \<Rightarrow> int \<Rightarrow> int \<Rightarrow> int list" where
  "range_up i stop step =
     (if 0 < step \<and> i < stop then i # range_up (i + step) stop step else [])"
  by pat_completeness auto
termination
  by (relation "measure (\<lambda>(i, stop, step). nat (stop - i))") auto

function range_down :: "int \<Rightarrow> int \<Rightarrow> int \<Rightarrow> int list" where
  "range_down i stop step =
     (if step < 0 \<and> stop < i then i # range_down (i + step) stop step else [])"
  by pat_completeness auto
termination
  by (relation "measure (\<lambda>(i, stop, step). nat (i - stop))") auto

definition py_range :: "int \<Rightarrow> int \<Rightarrow> int \<Rightarrow> exn + int list" where
  "py_range start stop step =
     (if step = 0 then Inl (Exn ValueError ''range() arg 3 must not be zero'')
      else if 0 < step then Inr (range_up start stop step)
      else Inr (range_down start stop step))"

section \<open>FindInListBlock\<close>

record FindInListBlock_Input =
  fl_list :: "pyval list"
  fl_value :: pyval

definition FindInListBlock_Output :: "string list" where
  "FindInListBlock_Output = [''index'', ''found'', ''not_found_value'']"

definition FindInListBlock_run :: "FindInListBlock_Input \<Rightarrow> block_output" where
  "FindInListBlock_run input_data =
     try_except
       (eval_then (py_list_index (fl_list input_data) (fl_value input_data))
          (\<lambda>i. then_do (emit ''index'' (PInt i)) (emit ''found'' (PBool True))))
       is_ValueError
       (\<lambda>e. then_do (emit ''found'' (PBool False))
                (emit ''not_found_value'' (fl_value input_data)))"

section \<open>CreateListBlock\<close>

record CreateListBlock_Input =
  cl_values :: "pyval list"
  cl_max_size :: "int option"

definition CreateListBlock_Output :: "string list" where
  "CreateListBlock_Output = [''list'', ''error'']"

text \<open>\<^verbatim>\<open>input_data.max_size or len(input_data.values)\<close>: \<^verbatim>\<open>None\<close> and \<^verbatim>\<open>0\<close> are falsy.\<close>

definition chunk_size :: "CreateListBlock_Input \<Rightarrow> int" where
  "chunk_size input_data =
     (case cl_max_size input_data of
        None \<Rightarrow> int (length (cl_values input_data))
      | Some m \<Rightarrow> if m \<noteq> 0 then m else int (length (cl_values input_data)))"

text \<open>The body of the \<^verbatim>\<open>for\<close> loop, run over the values of the range in order.\<close>

fun yield_chunks :: "pyval list \<Rightarrow> int \<Rightarrow> int list \<Rightarrow> block_output" where
  "yield_chunks vals max_size [] = ([], None)"
| "yield_chunks vals max_size (i # rest) =
     then_do (emit ''list'' (PList (py_slice vals (Some i) (Some (i + max_size)))))
       (yield_chunks vals max_size rest)"

definition CreateListBlock_run :: "CreateListBlock_Input \<Rightarrow> block_output" where
  "CreateListBlock_run input_data =
     try_except
       (let max_size = chunk_size input_data in
        eval_then (py_range 0 (int (length (cl_values input_data))) max_size)
          (\<lambda>indices. yield_chunks (cl_values input_data) max_size indices))
       is_Exception
       (\<lambda>e. emit ''error'' (PStr (''Failed to create list: '' @ exn_str e)))"

section \<open>AddToListBlock\<close>

record AddToListBlock_Input =
  al_list :: "pyval list"
  al_entry :: pyval
  al_entries :: "pyval list"
  al_position :: "int option"

definition AddToListBlock_Output :: "string list" where
  "AddToListBlock_Output = [''updated_list'', ''error'']"

text \<open>\<^verbatim>\<open>entries_added\<close>: the copy of \<^verbatim>\<open>entries\<close>, extended by \<^verbatim>\<open>entry\<close> under
  \<^verbatim>\<open>if input_data.entry:\<close>.\<close>

definition entries_added :: "AddToListBlock_Input \<Rightarrow> pyval list" where
  "entries_added input_data =
     (if py_truthy (al_entry input_data)
      then al_entries input_data @ [al_entry input_data]
      else al_entries input_data)"

definition AddToListBlock_updated_list :: "AddToListBlock_Input \<Rightarrow> pyval list" where
  "AddToListBlock_updated_list input_data =
     (let updated_list = al_list input_data in
      case al_position input_data of
        Some pos \<Rightarrow>
          py_slice updated_list None (Some pos) @ entries_added input_data
            @ py_slice updated_list (Some pos) None
      | None \<Rightarrow> updated_list @ entries_added input_data)"

definition AddToListBlock_run :: "AddToListBlock_Input \<Rightarrow> block_output" where
  "AddToListBlock_run input_data =
     emit ''updated_list'' (PList (AddToListBlock_updated_list input_data))"

section \<open>AddToDictionaryBlock\<close>

text \<open>\<^verbatim>\<open>d[k] = v\<close>: a present key keeps its place and gets the new value, a new key goes
  to the end.\<close>

fun dict_setitem :: "('k \<times> 'v) list \<Rightarrow> 'k \<Rightarrow> 'v \<Rightarrow> ('k \<times> 'v) list" where
  "dict_setitem [] k v = [(k, v)]"
| "dict_setitem ((k', v') # d) k v =
     (if k' = k then (k', v) # d else (k', v') # dict_setitem d k v)"

text \<open>\<^verbatim>\<open>for key, value in entries.items(): updated_dict[key] = value\<close>.\<close>

fun set_all_items :: "('k \<times> 'v) list \<Rightarrow> ('k \<times> 'v) list \<Rightarrow> ('k \<times> 'v) list" where
  "set_all_items updated_dict [] = updated_dict"
| "set_all_items updated_dict ((key, val) # items) =
     set_all_items (dict_setitem updated_dict key val) items"

record AddToDictionaryBlock_Input =
  ad_dictionary :: "(pykey \<times> pyval) list"
  ad_key :: string
  ad_value :: pyval
  ad_entries :: "(pykey \<times> pyval) list"

definition AddToDictionaryBlock_Output :: "string list" where
  "AddToDictionaryBlock_Output = [''updated_dictionary'', ''error'']"

definition AddToDictionaryBlock_updated_dict ::
  "AddToDictionaryBlock_Input \<Rightarrow> (pykey \<times> pyval) list" where
  "AddToDictionaryBlock_updated_dict input_data =
     (let updated_dict = ad_dictionary input_data;
          updated_dict =
            (if ad_value input_data \<noteq> PNone \<and> ad_key input_data \<noteq> []
             then dict_setitem updated_dict (KStr (ad_key input_data)) (ad_value input_data)
             else updated_dict)
      in set_all_items updated_dict (ad_entries input_data))"

definition AddToDictionaryBlock_run :: "AddToDictionaryBlock_Input \<Rightarrow> block_output" where
  "AddToDictionaryBlock_run input_data =
     emit ''updated_dictionary'' (PDict (AddToDictionaryBlock_updated_dict input_data))"

section \<open>FindInDictionaryBlock\<close>

subsection \<open>Membership, subscription and attributes\<close>

fun key_value :: "pykey \<Rightarrow> pyval" where
  "key_value (KStr s) = PStr s"
| "key_value (KInt i) = PInt i"

text \<open>\<^verbatim>\<open>sub in s\<close> on strings: \<^verbatim>\<open>sub\<close> occurs in \<^verbatim>\<open>s\<close> as a contiguous run.\<close>

fun is_substring :: "string \<Rightarrow> string \<Rightarrow> bool" where
  "is_substring sub [] = (sub = [])"
| "is_substring sub (c # s) = (take (length sub) (c # s) = sub \<or> is_substring sub s)"

text \<open>
  \<^verbatim>\<open>key in item\<close>: a dictionary looks among its keys, a list among its elements, a
  string accepts only a string on the left; \<^verbatim>\<open>None\<close>, booleans, integers and plain
  instances are not containers and raise \<^verbatim>\<open>TypeError\<close>.
\<close>

fun py_contains :: "pyval \<Rightarrow> pykey \<Rightarrow> exn + bool" where
  "py_contains (PDict d) key = Inr (map_of d key \<noteq> None)"
| "py_contains (PList xs) key = Inr (list_ex (\<lambda>x. py_eq x (key_value key)) xs)"
| "py_contains (PStr s) (KStr sub) = Inr (is_substring sub s)"
| "py_contains (PStr s) (KInt i) =
     Inl (Exn TypeError ''in <string> requires string as left operand, not int'')"
| "py_contains _ key = Inl (Exn TypeError ''argument is not iterable'')"

text \<open>An index into a sequence of length \<open>n\<close>; negative indices count from the end.\<close>

definition py_index :: "nat \<Rightarrow> int \<Rightarrow> nat option" where
  "py_index n i =
     (let j = (if i < 0 then int n + i else i)
      in if 0 \<le> j \<and> j < int n then Some (nat j) else None)"

text \<open>\<^verbatim>\<open>item[key]\<close>.\<close>

fun py_getitem :: "pyval \<Rightarrow> pykey \<Rightarrow> exn + pyval" where
  "py_getitem (PDict d) key =
     (case map_of d key of
        Some v \<Rightarrow> Inr v
      | None \<Rightarrow> Inl (Exn KeyError ''key''))"
| "py_getitem (PList xs) (KInt i) =
     (case py_index (length xs) i of
        Some j \<Rightarrow> Inr (xs ! j)
      | None \<Rightarrow> Inl (Exn IndexError ''list index out of range''))"
| "py_getitem (PList xs) (KStr k) =
     Inl (Exn TypeError ''list indices must be integers or slices, not str'')"
| "py_getitem (PStr s) (KInt i) =
     (case py_index (length s) i of
        Some j \<Rightarrow> Inr (PStr [s ! j])
      | None \<Rightarrow> Inl (Exn IndexError ''string index out of range''))"
| "py_getitem (PStr s) (KStr k) =
     Inl (Exn TypeError ''string indices must be integers, not str'')"
| "py_getitem _ key = Inl (Exn TypeError ''object is not subscriptable'')"

text \<open>
  Attribute lookup: an instance finds the attribute in its own \<^verbatim>\<open>__dict__\<close> first;
  what the class of a value provides (methods of \<^verbatim>\<open>dict\<close>, \<^verbatim>\<open>list\<close>, \<^verbatim>\<open>str\<close>,
  \<^verbatim>\<open>__class__\<close>, ...) belongs to the Python runtime and is the parameter
  \<open>class_attr\<close>.
\<close>

type_synonym class_attrs = "pyval \<Rightarrow> string \<Rightarrow> pyval option"

fun lookup_attr :: "class_attrs \<Rightarrow> pyval \<Rightarrow> string \<Rightarrow> pyval option" where
  "lookup_attr class_attr (PObj i attrs) name =
     (case map_of attrs name of
        Some v \<Rightarrow> Some v
      | None \<Rightarrow> class_attr (PObj i attrs) name)"
| "lookup_attr class_attr v name = class_attr v name"

definition py_hasattr :: "class_attrs \<Rightarrow> pyval \<Rightarrow> string \<Rightarrow> bool" where
  "py_hasattr class_attr v name = (lookup_attr class_attr v name \<noteq> None)"

definition py_getattr :: "class_attrs \<Rightarrow> pyval \<Rightarrow> string \<Rightarrow> exn + pyval" where
  "py_getattr class_attr v name =
     (case lookup_attr class_attr v name of
        Some a \<Rightarrow> Inr a
      | None \<Rightarrow> Inl (Exn AttributeError name))"

subsection \<open>The two comprehensions\<close>

text \<open>\<^verbatim>\<open>[item[key] for item in obj if key in item]\<close>: the first exception ends it.\<close>

fun items_with_key :: "pykey \<Rightarrow> pyval list \<Rightarrow> exn + pyval list" where
  "items_with_key key [] = Inr []"
| "items_with_key key (item # rest) =
     (case py_contains item key of
        Inl e \<Rightarrow> Inl e
      | Inr False \<Rightarrow> items_with_key key rest
      | Inr True \<Rightarrow>
          (case py_getitem item key of
             Inl e \<Rightarrow> Inl e
           | Inr v \<Rightarrow>
               (case items_with_key key rest of
                  Inl e \<Rightarrow> Inl e
                | Inr vs \<Rightarrow> Inr (v # vs))))"

text \<open>\<^verbatim>\<open>[getattr(val, key) for val in obj if hasattr(val, key)]\<close>.\<close>

fun vals_with_attr :: "class_attrs \<Rightarrow> string \<Rightarrow> pyval list \<Rightarrow> exn + pyval list" where
  "vals_with_attr class_attr key [] = Inr []"
| "vals_with_attr class_attr key (val # rest) =
     (if py_hasattr class_attr val key
      then (case py_getattr class_attr val key of
              Inl e \<Rightarrow> Inl e
            | Inr a \<Rightarrow>
                (case vals_with_attr class_attr key rest of
                   Inl e \<Rightarrow> Inl e
                 | Inr as \<Rightarrow> Inr (a # as)))
      else vals_with_attr class_attr key rest)"

subsection \<open>The routine\<close>

fun isinstance_str :: "pyval \<Rightarrow> bool" where
  "isinstance_str (PStr _) = True"
| "isinstance_str _ = False"

fun isinstance_dict :: "pyval \<Rightarrow> bool" where
  "isinstance_dict (PDict _) = True"
| "isinstance_dict _ = False"

fun isinstance_list :: "pyval \<Rightarrow> bool" where
  "isinstance_list (PList _) = True"
| "isinstance_list _ = False"

fun key_is_int :: "pykey \<Rightarrow> bool" where
  "key_is_int (KInt _) = True"
| "key_is_int (KStr _) = False"

fun key_is_str :: "pykey \<Rightarrow> bool" where
  "key_is_str (KStr _) = True"
| "key_is_str (KInt _) = False"

fun key_int :: "pykey \<Rightarrow> int" where
  "key_int (KInt i) = i"
| "key_int (KStr _) = 0"

fun key_str :: "pykey \<Rightarrow> string" where
  "key_str (KStr s) = s"
| "key_str (KInt _) = []"

fun str_value :: "pyval \<Rightarrow> string" where
  "str_value (PStr s) = s"
| "str_value _ = []"

fun list_items :: "pyval \<Rightarrow> pyval list" where
  "list_items (PList xs) = xs"
| "list_items _ = []"

text \<open>\<^verbatim>\<open>isinstance(obj, dict) and key in obj\<close>.\<close>

definition dict_with_key :: "pyval \<Rightarrow> pykey \<Rightarrow> bool" where
  "dict_with_key obj key = (isinstance_dict obj \<and> py_contains obj key = Inr True)"

record FindInDictionaryBlock_Input =
  fd_input :: pyval
  fd_key :: pykey

definition FindInDictionaryBlock_Output :: "string list" where
  "FindInDictionaryBlock_Output = [''output'', ''missing'']"

text \<open>
  \<^verbatim>\<open>backend.util.json.loads\<close> is an external collaborator: it is the parameter
  \<open>loads\<close>, returning the parsed document or the exception it raised.
\<close>

definition FindInDictionaryBlock_run ::
  "(string \<Rightarrow> exn + pyval) \<Rightarrow> class_attrs \<Rightarrow> FindInDictionaryBlock_Input \<Rightarrow> block_output" where
  "FindInDictionaryBlock_run loads class_attr input_data =
     (let key = fd_key input_data in
      eval_then
        (if isinstance_str (fd_input input_data)
         then loads (str_value (fd_input input_data))
         else Inr (fd_input input_data))
        (\<lambda>obj.
           if dict_with_key obj key then
             eval_then (py_getitem obj key) (emit ''output'')
           else if isinstance_list obj \<and> key_is_int key
                   \<and> 0 \<le> key_int key \<and> key_int key < int (length (list_items obj)) then
             eval_then (py_getitem obj key) (emit ''output'')
           else if isinstance_list obj \<and> key_is_str key then
             (if length (list_items obj) = 0 then
                emit ''output'' (PList [])
              else if dict_with_key (list_items obj ! 0) key then
                eval_then (items_with_key key (list_items obj))
                  (\<lambda>vs. emit ''output'' (PList vs))
              else
                eval_then (vals_with_attr class_attr (key_str key) (list_items obj))
                  (\<lambda>vs. emit ''output'' (PList vs)))
           else if key_is_str key \<and> py_hasattr class_attr obj (key_str key) then
             eval_then (py_getattr class_attr obj (key_str key)) (emit ''output'')
           else
             emit ''missing'' (fd_input input_data)))"

section \<open>The remaining blocks\<close>

record FileStoreBlock_Input =
  fs_file_in :: string
  fs_base_64 :: bool

definition FileStoreBlock_Output :: "string list" where
  "FileStoreBlock_Output = [''file_out'']"

text \<open>\<^verbatim>\<open>store_media_file\<close> is an external collaborator (the parameter
  \<open>store_media_file\<close>); what it raises is not caught.\<close>

definition FileStoreBlock_run ::
  "(string \<Rightarrow> string \<Rightarrow> bool \<Rightarrow> exn + pyval) \<Rightarrow> string \<Rightarrow> FileStoreBlock_Input \<Rightarrow> block_output" where
  "FileStoreBlock_run store_media_file graph_exec_id input_data =
     eval_then (store_media_file graph_exec_id (fs_file_in input_data) (fs_base_64 input_data))
       (emit ''file_out'')"

definition PrintToConsoleBlock_Output :: "string list" where
  "PrintToConsoleBlock_Output = [''output'', ''status'']"

definition PrintToConsoleBlock_run :: "pyval \<Rightarrow> block_output" where
  "PrintToConsoleBlock_run text = then_do (emit ''output'' text) (emit ''status'' (PStr ''printed''))"

definition NoteBlock_Output :: "string list" where
  "NoteBlock_Output = [''output'']"

definition NoteBlock_run :: "string \<Rightarrow> block_output" where
  "NoteBlock_run text = emit ''output'' (PStr text)"

definition CreateDictionaryBlock_Output :: "string list" where
  "CreateDictionaryBlock_Output = [''dictionary'', ''error'']"

definition CreateDictionaryBlock_run :: "(pykey \<times> pyval) list \<Rightarrow> block_output" where
  "CreateDictionaryBlock_run vals =
     try_except (emit ''dictionary'' (PDict vals)) is_Exception
       (\<lambda>e. emit ''error'' (PStr (''Failed to create dictionary: '' @ exn_str e)))"

text \<open>The names of the events of one invocation.\<close>

definition emitted_fields :: "block_output \<Rightarrow> string set" where
  "emitted_fields out = fst ` set (fst out)"

section \<open>Containers in a store\<close>

text \<open>
  Whether a routine changes the container its caller passed shows only when containers
  are objects with an identity. Here a container lives at an address of a store; a value
  is an immutable scalar or a reference to a container. \<^verbatim>\<open>copy\<close>, slicing and
  \<^verbatim>\<open>+\<close> allocate a new container; \<^verbatim>\<open>append\<close>, \<^verbatim>\<open>+=\<close> and item assignment
  update the container they are applied to, in place. The two routines that copy before
  they mutate are written once more below, statement by statement, on the store.
\<close>

type_synonym addr = nat

datatype hval = HNone | HBool bool | HInt int | HStr string | HRef addr

datatype container = CList "hval list" | CDict "(pykey \<times> hval) list"

text \<open>The store is the list of the containers allocated so far; an address is an index.\<close>

type_synonym store = "container list"

definition alloc :: "store \<Rightarrow> container \<Rightarrow> store \<times> addr" where
  "alloc st c = (st @ [c], length st)"

definition read_list :: "store \<Rightarrow> addr \<Rightarrow> exn + hval list" where
  "read_list st a =
     (if a < length st
      then (case st ! a of
              CList xs \<Rightarrow> Inr xs
            | CDict d \<Rightarrow> Inl (Exn TypeError ''not a list''))
      else Inl (Exn OtherException ''no such object''))"

definition read_dict :: "store \<Rightarrow> addr \<Rightarrow> exn + (pykey \<times> hval) list" where
  "read_dict st a =
     (if a < length st
      then (case st ! a of
              CDict d \<Rightarrow> Inr d
            | CList xs \<Rightarrow> Inl (Exn TypeError ''not a dict''))
      else Inl (Exn OtherException ''no such object''))"

definition bind_res :: "exn + 'a \<Rightarrow> ('a \<Rightarrow> exn + 'b) \<Rightarrow> exn + 'b" where
  "bind_res r f = (case r of Inl e \<Rightarrow> Inl e | Inr x \<Rightarrow> f x)"

text \<open>\<^verbatim>\<open>xs.copy()\<close>, \<^verbatim>\<open>xs[lo:hi]\<close> and \<^verbatim>\<open>xs + ys\<close>: a new list.\<close>

definition list_copy :: "store \<Rightarrow> addr \<Rightarrow> exn + store \<times> addr" where
  "list_copy st a = bind_res (read_list st a) (\<lambda>xs. Inr (alloc st (CList xs)))"

definition list_slice :: "store \<Rightarrow> addr \<Rightarrow> int option \<Rightarrow> int option \<Rightarrow> exn + store \<times> addr" where
  "list_slice st a lo hi =
     bind_res (read_list st a) (\<lambda>xs. Inr (alloc st (CList (py_slice xs lo hi))))"

definition list_concat :: "store \<Rightarrow> addr \<Rightarrow> addr \<Rightarrow> exn + store \<times> addr" where
  "list_concat st a b =
     bind_res (read_list st a) (\<lambda>xs.
     bind_res (read_list st b) (\<lambda>ys. Inr (alloc st (CList (xs @ ys)))))"

text \<open>\<^verbatim>\<open>xs.append(v)\<close> and \<^verbatim>\<open>xs += ys\<close>: the list at the address changes.\<close>

definition list_append :: "store \<Rightarrow> addr \<Rightarrow> hval \<Rightarrow> exn + store" where
  "list_append st a v =
     bind_res (read_list st a) (\<lambda>xs. Inr (st[a := CList (xs @ [v])]))"

definition list_iadd :: "store \<Rightarrow> addr \<Rightarrow> addr \<Rightarrow> exn + store" where
  "list_iadd st a b =
     bind_res (read_list st a) (\<lambda>xs.
     bind_res (read_list st b) (\<lambda>ys. Inr (st[a := CList (xs @ ys)])))"

text \<open>\<^verbatim>\<open>d.copy()\<close> and \<^verbatim>\<open>d[k] = v\<close>.\<close>

definition dict_copy :: "store \<Rightarrow> addr \<Rightarrow> exn + store \<times> addr" where
  "dict_copy st a = bind_res (read_dict st a) (\<lambda>d. Inr (alloc st (CDict d)))"

definition store_setitem :: "store \<Rightarrow> addr \<Rightarrow> pykey \<Rightarrow> hval \<Rightarrow> exn + store" where
  "store_setitem st a k v =
     bind_res (read_dict st a) (\<lambda>d. Inr (st[a := CDict (dict_setitem d k v)]))"

text \<open>\<^verbatim>\<open>for key, value in items: updated_dict[key] = value\<close>, on the store.\<close>

fun store_all_items :: "store \<Rightarrow> addr \<Rightarrow> (pykey \<times> hval) list \<Rightarrow> exn + store" where
  "store_all_items st a [] = Inr st"
| "store_all_items st a ((key, val) # items) =
     bind_res (store_setitem st a key val) (\<lambda>st'. store_all_items st' a items)"

text \<open>Truthiness of a value in a store: an empty container is falsy.\<close>

fun h_truthy :: "store \<Rightarrow> hval \<Rightarrow> bool" where
  "h_truthy st HNone = False"
| "h_truthy st (HBool b) = b"
| "h_truthy st (HInt i) = (i \<noteq> 0)"
| "h_truthy st (HStr s) = (s \<noteq> [])"
| "h_truthy st (HRef a) =
     (if a < length st
      then (case st ! a of CList xs \<Rightarrow> xs \<noteq> [] | CDict d \<Rightarrow> d \<noteq> [])
      else True)"

text \<open>A value of a store refers to nothing outside it.\<close>

fun valid_in :: "store \<Rightarrow> hval \<Rightarrow> bool" where
  "valid_in st (HRef a) = (a < length st)"
| "valid_in st v = True"

text \<open>The batch on the store: the entries, extended by the entry when it is truthy.\<close>

definition store_entries_added :: "store \<Rightarrow> hval list \<Rightarrow> hval \<Rightarrow> hval list" where
  "store_entries_added st es entry = (if h_truthy st entry then es @ [entry] else es)"

record AddToListBlock_Refs =
  rl_list :: addr
  rl_entry :: hval
  rl_entries :: addr
  rl_position :: "int option"

definition AddToListBlock_run_store ::
  "store \<Rightarrow> AddToListBlock_Refs \<Rightarrow> exn + store \<times> (string \<times> hval) list" where
  "AddToListBlock_run_store st input_data =
     bind_res (list_copy st (rl_entries input_data)) (\<lambda>(st, entries_added).
     bind_res (if h_truthy st (rl_entry input_data)
               then list_append st entries_added (rl_entry input_data)
               else Inr st) (\<lambda>st.
     bind_res (list_copy st (rl_list input_data)) (\<lambda>(st, updated_list).
     bind_res
       (case rl_position input_data of
          Some pos \<Rightarrow>
            bind_res (list_slice st updated_list None (Some pos)) (\<lambda>(st, left).
            bind_res (list_concat st left entries_added) (\<lambda>(st, left_added).
            bind_res (list_slice st updated_list (Some pos) None) (\<lambda>(st, right).
            list_concat st left_added right)))
        | None \<Rightarrow>
            bind_res (list_iadd st updated_list entries_added) (\<lambda>st.
            Inr (st, updated_list)))
       (\<lambda>(st, updated_list). Inr (st, [(''updated_list'', HRef updated_list)])))))"

record AddToDictionaryBlock_Refs =
  rd_dictionary :: addr
  rd_key :: string
  rd_value :: hval
  rd_entries :: addr

definition AddToDictionaryBlock_run_store ::
  "store \<Rightarrow> AddToDictionaryBlock_Refs \<Rightarrow> exn + store \<times> (string \<times> hval) list" where
  "AddToDictionaryBlock_run_store st input_data =
     bind_res (dict_copy st (rd_dictionary input_data)) (\<lambda>(st, updated_dict).
     bind_res (if rd_value input_data \<noteq> HNone \<and> rd_key input_data \<noteq> []
               then store_setitem st updated_dict (KStr (rd_key input_data))
                      (rd_value input_data)
               else Inr st) (\<lambda>st.
     bind_res (read_dict st (rd_entries input_data)) (\<lambda>items.
     bind_res (store_all_items st updated_dict items) (\<lambda>st.
     Inr (st, [(''updated_dictionary'', HRef updated_dict)])))))"

text \<open>An invocation that yielded nothing, or exactly one \<^verbatim>\<open>output\<close> event and then
  returned.\<close>

definition output_only :: "block_output \<Rightarrow> bool" where
  "output_only out = (fst out = [] \<or> (\<exists>v. out = ([(''output'', v)], None)))"

section \<open>Properties\<close>

lemma then_do_emit:
  "then_do (emit n v) h = ((n, v) # fst h, snd h)"
  by (simp add: then_do_def emit_def)

text \<open>
  Claim C9. Whatever the conversion collaborator does, the converter block ends without an
  escaping exception and with exactly one event: when the collaborator raises, the event is
  on the field \<^verbatim>\<open>error\<close> and carries the message prefix followed by the text of the
  exception; when it returns, the event is on \<^verbatim>\<open>value\<close> and carries the converted
  value.
\<close>

theorem UniversalTypeConverterBlock_run_catches:
  "snd (UniversalTypeConverterBlock_run convert input_data) = None
   \<and> length (fst (UniversalTypeConverterBlock_run convert input_data)) = 1
   \<and> (\<forall>e. convert (utc_value input_data) (target_type (utc_type input_data)) = Inl e \<longrightarrow>
          UniversalTypeConverterBlock_run convert input_data =
            ([(''error'', PStr (''Failed to convert value: '' @ exn_str e))], None))
   \<and> (\<forall>c. convert (utc_value input_data) (target_type (utc_type input_data)) = Inr c \<longrightarrow>
          UniversalTypeConverterBlock_run convert input_data = ([(''value'', c)], None))"
  by (cases "convert (utc_value input_data) (target_type (utc_type input_data))")
     (simp_all add: UniversalTypeConverterBlock_run_def try_except_def eval_then_def
        raise_exn_def emit_def then_do_def is_Exception_def)

theorem UniversalTypeConverterBlock_run_catches_witness:
  "UniversalTypeConverterBlock_run
     (\<lambda>v t. if t = T_float then Inl (Exn ValueError ''could not convert string to float'')
            else Inr v)
     \<lparr>utc_value = PStr ''abc'', utc_type = NUMBER\<rparr>
   = ([(''error'', PStr ''Failed to convert value: could not convert string to float'')], None)
   \<and> UniversalTypeConverterBlock_run
     (\<lambda>v t. if t = T_float then Inl (Exn ValueError ''could not convert string to float'')
            else Inr v)
     \<lparr>utc_value = PStr ''abc'', utc_type = STRING\<rparr>
   = ([(''value'', PStr ''abc'')], None)"
  using UniversalTypeConverterBlock_run_catches
      [of "\<lambda>v t. if t = T_float then Inl (Exn ValueError ''could not convert string to float'')
                 else Inr v"
          "\<lparr>utc_value = PStr ''abc'', utc_type = NUMBER\<rparr>"]
    UniversalTypeConverterBlock_run_catches
      [of "\<lambda>v t. if t = T_float then Inl (Exn ValueError ''could not convert string to float'')
                 else Inr v"
          "\<lparr>utc_value = PStr ''abc'', utc_type = STRING\<rparr>"]
  by simp

subsection \<open>StoreValueBlock\<close>

lemma StoreValueBlock_run_eq:
  "StoreValueBlock_run input_data =
     ([(''output'', if py_truthy (sv_data input_data) then sv_data input_data
                    else sv_input input_data)], None)"
  by (simp add: StoreValueBlock_run_def emit_def py_or_def)

text \<open>
  Claim C3. The claim promises \<^verbatim>\<open>data\<close> on \<^verbatim>\<open>output\<close> for every non-null
  \<^verbatim>\<open>data\<close>. The routine tests \<^verbatim>\<open>data\<close> for truthiness: with the non-null
  \<^verbatim>\<open>data = 0\<close> it forwards \<^verbatim>\<open>input\<close> instead.
\<close>

theorem StoreValueBlock_run_zero_data:
  "StoreValueBlock_run \<lparr>sv_input = PStr ''Hello, World!'', sv_data = PInt 0\<rparr>
     = ([(''output'', PStr ''Hello, World!'')], None)"
  by (simp add: StoreValueBlock_run_eq)

subsection \<open>CreateListBlock\<close>

text \<open>
  Claim C5. The claim promises the whole list as one \<^verbatim>\<open>list\<close> event when
  \<^verbatim>\<open>max_size\<close> is absent, the empty list included. For the empty list the step of the
  range is \<^verbatim>\<open>len(values) = 0\<close>, \<^verbatim>\<open>range\<close> raises, and the routine reports the
  failure on \<^verbatim>\<open>error\<close>.
\<close>

theorem CreateListBlock_run_empty_values:
  "CreateListBlock_run \<lparr>cl_values = [], cl_max_size = None\<rparr>
     = ([(''error'', PStr ''Failed to create list: range() arg 3 must not be zero'')], None)"
  by (simp add: CreateListBlock_run_def chunk_size_def py_range_def eval_then_def
        raise_exn_def try_except_def then_do_def emit_def is_Exception_def)

subsection \<open>AddToListBlock\<close>

text \<open>
  Claim C4. The claim appends \<^verbatim>\<open>entry\<close> to the batch exactly when it is non-null. The
  routine tests \<^verbatim>\<open>entry\<close> for truthiness: the non-null entry \<^verbatim>\<open>0\<close> is left out.
\<close>

theorem AddToListBlock_run_zero_entry:
  "AddToListBlock_run
     \<lparr>al_list = [PInt 1], al_entry = PInt 0, al_entries = [], al_position = None\<rparr>
     = ([(''updated_list'', PList [PInt 1])], None)"
  by (simp add: AddToListBlock_run_def AddToListBlock_updated_list_def entries_added_def
        emit_def)

subsection \<open>FindInListBlock\<close>

lemma first_index_None: "(first_index xs v = None) = (\<forall>x \<in> set xs. \<not> py_eq x v)"
  by (induction xs) auto

lemma first_index_Some:
  "first_index xs v = Some i \<Longrightarrow>
     i < length xs \<and> py_eq (xs ! i) v \<and> (\<forall>j < i. \<not> py_eq (xs ! j) v)"
proof (induction xs arbitrary: i)
  case Nil
  then show ?case by simp
next
  case (Cons x xs)
  show ?case
  proof (cases "py_eq x v")
    case True
    with Cons.prems show ?thesis by simp
  next
    case False
    with Cons.prems obtain k where k: "first_index xs v = Some k" and i: "i = Suc k"
      by auto
    from Cons.IH [OF k] False i show ?thesis
      by (auto simp: nth_Cons split: nat.splits)
  qed
qed

lemma FindInListBlock_run_found:
  "first_index xs v = Some i \<Longrightarrow>
     FindInListBlock_run \<lparr>fl_list = xs, fl_value = v\<rparr>
       = ([(''index'', PInt (int i)), (''found'', PBool True)], None)"
  by (simp add: FindInListBlock_run_def py_list_index_def eval_then_def try_except_def
        then_do_def emit_def)

lemma FindInListBlock_run_not_found:
  "first_index xs v = None \<Longrightarrow>
     FindInListBlock_run \<lparr>fl_list = xs, fl_value = v\<rparr>
       = ([(''found'', PBool False), (''not_found_value'', v)], None)"
  by (simp add: FindInListBlock_run_def py_list_index_def eval_then_def try_except_def
        then_do_def emit_def raise_exn_def)

text \<open>
  Claim C8. If some element of the list equals the value (Python \<^verbatim>\<open>==\<close>), the routine
  yields exactly \<^verbatim>\<open>index\<close> with the position of the first equal element and then
  \<^verbatim>\<open>found = True\<close>; otherwise it yields exactly \<^verbatim>\<open>found = False\<close> and then
  \<^verbatim>\<open>not_found_value\<close> with the value. No exception escapes in either case.
\<close>

theorem FindInListBlock_run_search:
  "((\<exists>x \<in> set xs. py_eq x v) \<longrightarrow>
      (\<exists>i < length xs. py_eq (xs ! i) v \<and> (\<forall>j < i. \<not> py_eq (xs ! j) v)
         \<and> FindInListBlock_run \<lparr>fl_list = xs, fl_value = v\<rparr>
             = ([(''index'', PInt (int i)), (''found'', PBool True)], None)))
   \<and> ((\<forall>x \<in> set xs. \<not> py_eq x v) \<longrightarrow>
      FindInListBlock_run \<lparr>fl_list = xs, fl_value = v\<rparr>
        = ([(''found'', PBool False), (''not_found_value'', v)], None))
   \<and> snd (FindInListBlock_run \<lparr>fl_list = xs, fl_value = v\<rparr>) = None"
proof (cases "first_index xs v")
  case None
  then show ?thesis
    using first_index_None [of xs v] FindInListBlock_run_not_found [OF None] by simp
next
  case (Some i)
  have ex: "\<exists>x \<in> set xs. py_eq x v"
    using first_index_None [of xs v] Some by auto
  from first_index_Some [OF Some] FindInListBlock_run_found [OF Some] ex
  show ?thesis by auto
qed

theorem FindInListBlock_run_search_witness:
  "FindInListBlock_run \<lparr>fl_list = [PInt 1, PInt 2, PInt 3, PInt 4, PInt 5], fl_value = PInt 3\<rparr>
     = ([(''index'', PInt 2), (''found'', PBool True)], None)
   \<and> FindInListBlock_run \<lparr>fl_list = [PInt 1, PInt 2, PInt 3, PInt 4, PInt 5], fl_value = PInt 6\<rparr>
     = ([(''found'', PBool False), (''not_found_value'', PInt 6)], None)"
proof -
  let ?xs = "[PInt 1, PInt 2, PInt 3, PInt 4, PInt 5]"
  have "\<exists>x \<in> set ?xs. py_eq x (PInt 3)" by simp
  with FindInListBlock_run_search [of ?xs "PInt 3"]
  obtain i where i: "i < length ?xs" "py_eq (?xs ! i) (PInt 3)"
    and run: "FindInListBlock_run \<lparr>fl_list = ?xs, fl_value = PInt 3\<rparr>
                = ([(''index'', PInt (int i)), (''found'', PBool True)], None)"
    by blast
  from i have "i = 2"
    by (auto simp: less_Suc_eq nth_Cons split: nat.splits)
  with run have found: "FindInListBlock_run \<lparr>fl_list = ?xs, fl_value = PInt 3\<rparr>
                = ([(''index'', PInt 2), (''found'', PBool True)], None)"
    by simp
  have "\<forall>x \<in> set ?xs. \<not> py_eq x (PInt 6)" by simp
  with FindInListBlock_run_search [of ?xs "PInt 6"]
  have "FindInListBlock_run \<lparr>fl_list = ?xs, fl_value = PInt 6\<rparr>
          = ([(''found'', PBool False), (''not_found_value'', PInt 6)], None)"
    by blast
  with found show ?thesis by simp
qed

subsection \<open>AddToDictionaryBlock\<close>

lemma map_of_dict_setitem: "map_of (dict_setitem d k v) = (map_of d)(k \<mapsto> v)"
  by (induction d) (auto simp: fun_eq_iff)

lemma keys_dict_setitem:
  "set (map fst (dict_setitem d k v)) = insert k (set (map fst d))"
  by (induction d) (force split: if_splits)+

lemma distinct_dict_setitem:
  "distinct (map fst d) \<Longrightarrow> distinct (map fst (dict_setitem d k v))"
proof (induction d)
  case Nil
  then show ?case by simp
next
  case (Cons p d)
  then show ?case
    using keys_dict_setitem [of d k v] by (cases p) auto
qed

lemma distinct_set_all_items:
  "distinct (map fst d) \<Longrightarrow> distinct (map fst (set_all_items d items))"
  by (induction d items rule: set_all_items.induct) (simp_all add: distinct_dict_setitem)

lemma map_of_set_all_items:
  "map_of (set_all_items d items) = map_of d ++ map_of (rev items)"
proof (induction d items rule: set_all_items.induct)
  case (1 d)
  then show ?case by simp
next
  case (2 d key val items)
  have "(map_of d)(key \<mapsto> val) ++ map_of (rev items)
          = map_of d ++ (map_of (rev items) ++ [key \<mapsto> val] ++ map_of (rev items))"
    by (auto simp: fun_eq_iff map_add_def split: option.splits)
  also have "map_of (rev items) ++ [key \<mapsto> val] ++ map_of (rev items)
          = [key \<mapsto> val] ++ map_of (rev items)"
    by (auto simp: fun_eq_iff map_add_def split: option.splits)
  finally show ?case
    using "2.IH" by (simp add: map_of_dict_setitem)
qed

lemma map_of_rev_distinct:
  "distinct (map fst items) \<Longrightarrow> map_of (rev items) = map_of items"
proof (induction items)
  case Nil
  then show ?case by simp
next
  case (Cons p items)
  obtain k v where p: "p = (k, v)" by (cases p)
  from Cons.prems p have "k \<notin> dom (map_of items)"
    by (simp add: dom_map_of_conv_image_fst)
  then have "map_of items k = None" by auto
  with Cons p show ?case
    by (auto simp: fun_eq_iff map_add_def split: option.splits)
qed

text \<open>
  Claim C6. For dictionaries (distinct keys), the routine yields exactly one
  \<^verbatim>\<open>updated_dictionary\<close> event and raises nothing. As a mapping the emitted dictionary
  is \<^verbatim>\<open>dictionary\<close>, overridden by the pair \<^verbatim>\<open>key: value\<close> exactly when
  \<^verbatim>\<open>value\<close> is not \<^verbatim>\<open>None\<close> and \<^verbatim>\<open>key\<close> is not empty, overridden by every pair
  of \<^verbatim>\<open>entries\<close>. It is again a dictionary.
\<close>

theorem AddToDictionaryBlock_run_merge:
  assumes "distinct (map fst (ad_dictionary input_data))"
    and "distinct (map fst (ad_entries input_data))"
  shows "AddToDictionaryBlock_run input_data
           = ([(''updated_dictionary'', PDict (AddToDictionaryBlock_updated_dict input_data))], None)
         \<and> map_of (AddToDictionaryBlock_updated_dict input_data)
           = (map_of (ad_dictionary input_data)
                ++ (if ad_value input_data \<noteq> PNone \<and> ad_key input_data \<noteq> []
                    then [KStr (ad_key input_data) \<mapsto> ad_value input_data] else Map.empty))
              ++ map_of (ad_entries input_data)
         \<and> distinct (map fst (AddToDictionaryBlock_updated_dict input_data))"
proof -
  have run: "AddToDictionaryBlock_run input_data
           = ([(''updated_dictionary'', PDict (AddToDictionaryBlock_updated_dict input_data))], None)"
    by (simp add: AddToDictionaryBlock_run_def emit_def)
  have sem: "map_of (AddToDictionaryBlock_updated_dict input_data)
           = (map_of (ad_dictionary input_data)
                ++ (if ad_value input_data \<noteq> PNone \<and> ad_key input_data \<noteq> []
                    then [KStr (ad_key input_data) \<mapsto> ad_value input_data] else Map.empty))
              ++ map_of (ad_entries input_data)"
    using assms(2)
    by (simp add: AddToDictionaryBlock_updated_dict_def Let_def map_of_set_all_items
          map_of_dict_setitem map_of_rev_distinct)
  have dist: "distinct (map fst (AddToDictionaryBlock_updated_dict input_data))"
    using assms(1)
    by (simp add: AddToDictionaryBlock_updated_dict_def Let_def distinct_set_all_items
          distinct_dict_setitem)
  from run sem dist show ?thesis by simp
qed

theorem AddToDictionaryBlock_run_merge_witness:
  "distinct (map fst [(KStr ''existing_key'', PStr ''existing_value'')])
   \<and> distinct (map fst [(KStr ''new_key'', PStr ''batch_value''),
                         (KStr ''first_key'', PStr ''first_value'')])
   \<and> AddToDictionaryBlock_run
        \<lparr>ad_dictionary = [(KStr ''existing_key'', PStr ''existing_value'')],
         ad_key = ''new_key'', ad_value = PStr ''new_value'',
         ad_entries = [(KStr ''new_key'', PStr ''batch_value''),
                       (KStr ''first_key'', PStr ''first_value'')]\<rparr>
       = ([(''updated_dictionary'',
            PDict [(KStr ''existing_key'', PStr ''existing_value''),
                   (KStr ''new_key'', PStr ''batch_value''),
                   (KStr ''first_key'', PStr ''first_value'')])], None)"
  using AddToDictionaryBlock_run_merge
      [of "\<lparr>ad_dictionary = [(KStr ''existing_key'', PStr ''existing_value'')],
            ad_key = ''new_key'', ad_value = PStr ''new_value'',
            ad_entries = [(KStr ''new_key'', PStr ''batch_value''),
                          (KStr ''first_key'', PStr ''first_value'')]\<rparr>"]
  by (simp add: AddToDictionaryBlock_updated_dict_def)

subsection \<open>FindInDictionaryBlock\<close>

text \<open>The fixtures the block declares (\<^verbatim>\<open>test_input\<close>, \<^verbatim>\<open>test_output\<close>).\<close>

lemma FindInDictionaryBlock_fixtures:
  "FindInDictionaryBlock_run loads class_attr
     \<lparr>fd_input = PDict [(KStr ''apple'', PInt 1), (KStr ''banana'', PInt 2),
                        (KStr ''cherry'', PInt 3)],
      fd_key = KStr ''banana''\<rparr> = ([(''output'', PInt 2)], None)"
  "FindInDictionaryBlock_run loads class_attr
     \<lparr>fd_input = PList [PInt 1, PInt 2, PInt 3], fd_key = KInt 1\<rparr>
     = ([(''output'', PInt 2)], None)"
  "FindInDictionaryBlock_run loads class_attr
     \<lparr>fd_input = PList [PInt 1, PInt 2, PInt 3], fd_key = KInt 3\<rparr>
     = ([(''missing'', PList [PInt 1, PInt 2, PInt 3])], None)"
  "FindInDictionaryBlock_run loads class_attr
     \<lparr>fd_input = PObj 0 [(''value'', PStr ''!!''), (''key'', PStr ''key'')],
      fd_key = KStr ''key''\<rparr> = ([(''output'', PStr ''key'')], None)"
  "FindInDictionaryBlock_run loads class_attr
     \<lparr>fd_input = PList [PDict [(KStr ''k1'', PStr ''v1'')], PDict [(KStr ''k2'', PStr ''v2'')],
                        PDict [(KStr ''k1'', PStr ''v3'')]],
      fd_key = KStr ''k1''\<rparr> = ([(''output'', PList [PStr ''v1'', PStr ''v3''])], None)"
  by (simp_all add: FindInDictionaryBlock_run_def eval_then_def emit_def dict_with_key_def
        py_index_def py_hasattr_def py_getattr_def)

text \<open>
  Claim C1. The claim promises, for a list whose first element is a mapping containing the
  key, the projection over the elements containing the key, the others being skipped. The
  comprehension tests \<^verbatim>\<open>key in item\<close> on every element: on an element that is not a
  container (here the integer \<^verbatim>\<open>5\<close>) the test raises \<^verbatim>\<open>TypeError\<close>, the routine
  yields nothing and the exception escapes.
\<close>

theorem FindInDictionaryBlock_run_mixed_list:
  "FindInDictionaryBlock_run loads class_attr
     \<lparr>fd_input = PList [PDict [(KStr ''k1'', PStr ''v1'')], PInt 5], fd_key = KStr ''k1''\<rparr>
     = ([], Some (Exn TypeError ''argument is not iterable''))"
  by (simp add: FindInDictionaryBlock_run_def eval_then_def emit_def dict_with_key_def
        raise_exn_def)

lemma output_only_eval: "output_only (eval_then r (emit ''output''))"
  by (cases r) (auto simp: output_only_def eval_then_def raise_exn_def emit_def)

lemma output_only_eval_list:
  "output_only (eval_then r (\<lambda>vs. emit ''output'' (PList vs)))"
  by (cases r) (auto simp: output_only_def eval_then_def raise_exn_def emit_def)

lemma output_only_emit: "output_only (emit ''output'' v)"
  by (auto simp: output_only_def emit_def)

lemma FindInDictionaryBlock_run_shape:
  "fst (FindInDictionaryBlock_run loads class_attr input_data) = []
   \<or> (\<exists>v. FindInDictionaryBlock_run loads class_attr input_data = ([(''output'', v)], None))
   \<or> (FindInDictionaryBlock_run loads class_attr input_data
        = ([(''missing'', fd_input input_data)], None)
       \<and> (isinstance_str (fd_input input_data) \<longrightarrow>
            (\<exists>obj. loads (str_value (fd_input input_data)) = Inr obj)))"
proof (cases "if isinstance_str (fd_input input_data)
              then loads (str_value (fd_input input_data))
              else Inr (fd_input input_data)")
  case (Inl e)
  then show ?thesis
    by (simp add: FindInDictionaryBlock_run_def eval_then_def raise_exn_def)
next
  case (Inr obj)
  have parsed: "isinstance_str (fd_input input_data) \<longrightarrow>
            (\<exists>obj. loads (str_value (fd_input input_data)) = Inr obj)"
    using Inr by (auto split: if_splits)
  let ?out = "FindInDictionaryBlock_run loads class_attr input_data"
  have "output_only ?out \<or> ?out = ([(''missing'', fd_input input_data)], None)"
    using Inr
    by (simp add: FindInDictionaryBlock_run_def Let_def eval_then_def [of "Inr obj"]
          output_only_eval output_only_eval_list output_only_emit emit_def [of "''missing''"])
  with parsed show ?thesis
    unfolding output_only_def by blast
qed

text \<open>
  Claim C10. When \<^verbatim>\<open>input\<close> is a string and the parser raises on it, the routine
  yields no event and the parser's exception escapes. A \<^verbatim>\<open>missing\<close> event is yielded
  only when \<^verbatim>\<open>input\<close> is not a string or the parser returned a document, and then it
  is the only event and carries \<^verbatim>\<open>input\<close> itself.
\<close>

theorem FindInDictionaryBlock_run_parse_failure:
  "(fd_input input_data = PStr s \<and> loads s = Inl e \<longrightarrow>
      FindInDictionaryBlock_run loads class_attr input_data = ([], Some e))
   \<and> ((''missing'', v) \<in> set (fst (FindInDictionaryBlock_run loads class_attr input_data)) \<longrightarrow>
        (\<not> isinstance_str (fd_input input_data)
           \<or> (\<exists>obj. loads (str_value (fd_input input_data)) = Inr obj))
        \<and> FindInDictionaryBlock_run loads class_attr input_data
            = ([(''missing'', fd_input input_data)], None))"
proof -
  have fail: "fd_input input_data = PStr s \<and> loads s = Inl e \<longrightarrow>
      FindInDictionaryBlock_run loads class_attr input_data = ([], Some e)"
    by (simp add: FindInDictionaryBlock_run_def eval_then_def raise_exn_def)
  have miss: "(''missing'', v) \<in> set (fst (FindInDictionaryBlock_run loads class_attr input_data)) \<longrightarrow>
        (\<not> isinstance_str (fd_input input_data)
           \<or> (\<exists>obj. loads (str_value (fd_input input_data)) = Inr obj))
        \<and> FindInDictionaryBlock_run loads class_attr input_data
            = ([(''missing'', fd_input input_data)], None)"
    using FindInDictionaryBlock_run_shape [of loads class_attr input_data] by auto
  from fail miss show ?thesis by simp
qed

theorem FindInDictionaryBlock_run_parse_failure_witness:
  "FindInDictionaryBlock_run
     (\<lambda>s. if s = ''[1, 2, 3]'' then Inr (PList [PInt 1, PInt 2, PInt 3])
           else Inl (Exn JSONDecodeError ''Expecting value''))
     (\<lambda>v name. None)
     \<lparr>fd_input = PStr ''not json'', fd_key = KStr ''k''\<rparr>
     = ([], Some (Exn JSONDecodeError ''Expecting value''))
   \<and> FindInDictionaryBlock_run
     (\<lambda>s. if s = ''[1, 2, 3]'' then Inr (PList [PInt 1, PInt 2, PInt 3])
           else Inl (Exn JSONDecodeError ''Expecting value''))
     (\<lambda>v name. None)
     \<lparr>fd_input = PStr ''[1, 2, 3]'', fd_key = KInt 3\<rparr>
     = ([(''missing'', PStr ''[1, 2, 3]'')], None)"
  using FindInDictionaryBlock_run_parse_failure
      [where input_data = "\<lparr>fd_input = PStr ''not json'', fd_key = KStr ''k''\<rparr>"
         and s = "''not json''"
         and loads = "\<lambda>s. if s = ''[1, 2, 3]'' then Inr (PList [PInt 1, PInt 2, PInt 3])
                       else Inl (Exn JSONDecodeError ''Expecting value'')"
         and e = "Exn JSONDecodeError ''Expecting value''"
         and v = "PStr ''[1, 2, 3]''"
         and class_attr = "\<lambda>v name. None"]
  by (simp add: FindInDictionaryBlock_run_def eval_then_def emit_def dict_with_key_def
        raise_exn_def py_hasattr_def)

subsection \<open>Declared output fields\<close>

text \<open>
  Claim C2. The claim says that no routine yields a field its Output schema does not
  declare, the converter block with a failing conversion included. That block's Output
  schema declares only \<^verbatim>\<open>value\<close>, and on a failing conversion the routine yields
  \<^verbatim>\<open>error\<close>.
\<close>

theorem UniversalTypeConverterBlock_run_undeclared_field:
  "emitted_fields
     (UniversalTypeConverterBlock_run
        (\<lambda>v t. Inl (Exn ValueError ''could not convert string to float''))
        \<lparr>utc_value = PStr ''abc'', utc_type = NUMBER\<rparr>) = {''error''}
   \<and> ''error'' \<notin> set UniversalTypeConverterBlock_Output"
  by (simp add: emitted_fields_def UniversalTypeConverterBlock_run_def try_except_def
        eval_then_def raise_exn_def emit_def then_do_def is_Exception_def
        UniversalTypeConverterBlock_Output_def)

subsection \<open>Copy before mutate\<close>

lemma read_list_old: "read_list st a = Inr xs \<Longrightarrow> read_list (st @ cs) a = Inr xs"
  by (auto simp: read_list_def nth_append split: if_splits)

lemma read_dict_old: "read_dict st a = Inr d \<Longrightarrow> read_dict (st @ cs) a = Inr d"
  by (auto simp: read_dict_def nth_append split: if_splits)

lemma read_list_new: "read_list (st @ CList xs # cs) (length st) = Inr xs"
  by (simp add: read_list_def)

lemma read_dict_new: "read_dict (st @ CDict d # cs) (length st) = Inr d"
  by (simp add: read_dict_def)

lemma h_truthy_old: "valid_in st v \<Longrightarrow> h_truthy (st @ cs) v = h_truthy st v"
  by (cases v) (auto simp: nth_append)

lemma store_all_items_new:
  "store_all_items (st @ [CDict d]) (length st) items
     = Inr (st @ [CDict (set_all_items d items)])"
  by (induction items arbitrary: d)
     (auto simp: store_setitem_def bind_res_def read_dict_new)

lemma AddToDictionaryBlock_run_store_eq:
  assumes "read_dict st (rd_dictionary input_data) = Inr d"
    and "read_dict st (rd_entries input_data) = Inr en"
  shows "AddToDictionaryBlock_run_store st input_data
    = Inr (st @ [CDict (set_all_items
                   (if rd_value input_data \<noteq> HNone \<and> rd_key input_data \<noteq> []
                    then dict_setitem d (KStr (rd_key input_data)) (rd_value input_data)
                    else d) en)],
           [(''updated_dictionary'', HRef (length st))])"
  using assms read_dict_old [OF assms(2), of "[c]" for c]
  by (simp add: AddToDictionaryBlock_run_store_def dict_copy_def alloc_def bind_res_def
        store_setitem_def read_dict_new store_all_items_new)

lemma read_list_InrD:
  "read_list st a = Inr xs \<Longrightarrow> a < length st \<and> st ! a = CList xs"
  by (auto simp: read_list_def split: if_splits container.splits)

lemma AddToListBlock_run_store_append:
  assumes "read_list st (rl_list input_data) = Inr xs"
    and "read_list st (rl_entries input_data) = Inr es"
    and "valid_in st (rl_entry input_data)"
    and "rl_position input_data = None"
  shows "AddToListBlock_run_store st input_data
    = Inr (st @ [CList (store_entries_added st es (rl_entry input_data)),
                 CList (xs @ store_entries_added st es (rl_entry input_data))],
           [(''updated_list'', HRef (Suc (length st)))])"
proof -
  from read_list_InrD [OF assms(1)]
  have l: "rl_list input_data < length st" "st ! rl_list input_data = CList xs" by simp_all
  from read_list_InrD [OF assms(2)]
  have e: "rl_entries input_data < length st" "st ! rl_entries input_data = CList es" by simp_all
  have t: "h_truthy (st @ [CList es]) (rl_entry input_data) = h_truthy st (rl_entry input_data)"
    by (rule h_truthy_old [OF assms(3)])
  show ?thesis
    using l e assms(4)
    by (simp add: AddToListBlock_run_store_def list_copy_def alloc_def bind_res_def
        list_append_def list_iadd_def read_list_def nth_append list_update_append t store_entries_added_def)
qed

lemma AddToListBlock_run_store_insert:
  assumes "read_list st (rl_list input_data) = Inr xs"
    and "read_list st (rl_entries input_data) = Inr es"
    and "valid_in st (rl_entry input_data)"
    and "rl_position input_data = Some pos"
  shows "AddToListBlock_run_store st input_data
    = Inr (st @ [CList (store_entries_added st es (rl_entry input_data)),
                 CList xs,
                 CList (py_slice xs None (Some pos)),
                 CList (py_slice xs None (Some pos) @ store_entries_added st es (rl_entry input_data)),
                 CList (py_slice xs (Some pos) None),
                 CList (py_slice xs None (Some pos) @ store_entries_added st es (rl_entry input_data)
                          @ py_slice xs (Some pos) None)],
           [(''updated_list'', HRef (length st + 5))])"
proof -
  from read_list_InrD [OF assms(1)]
  have l: "rl_list input_data < length st" "st ! rl_list input_data = CList xs" by simp_all
  from read_list_InrD [OF assms(2)]
  have e: "rl_entries input_data < length st" "st ! rl_entries input_data = CList es" by simp_all
  have t: "h_truthy (st @ [CList es]) (rl_entry input_data) = h_truthy st (rl_entry input_data)"
    by (rule h_truthy_old [OF assms(3)])
  show ?thesis
    using l e assms(4)
    by (simp add: AddToListBlock_run_store_def list_copy_def alloc_def bind_res_def
        list_append_def list_slice_def list_concat_def read_list_def nth_append
        list_update_append t store_entries_added_def)
qed

lemma read_dict_InrD:
  "read_dict st a = Inr d \<Longrightarrow> a < length st \<and> st ! a = CDict d"
  by (auto simp: read_dict_def split: if_splits container.splits)

lemma AddToListBlock_run_store_frame:
  assumes "read_list st (rl_list li) = Inr xs"
    and "read_list st (rl_entries li) = Inr es"
    and "valid_in st (rl_entry li)"
  shows "\<exists>st' r. AddToListBlock_run_store st li = Inr (st', [(''updated_list'', HRef r)])
           \<and> take (length st) st' = st
           \<and> read_list st' (rl_list li) = Inr xs
           \<and> read_list st' (rl_entries li) = Inr es
           \<and> length st \<le> r \<and> r \<noteq> rl_list li \<and> r \<noteq> rl_entries li
           \<and> read_list st' r =
               Inr (case rl_position li of
                      None \<Rightarrow> xs @ store_entries_added st es (rl_entry li)
                    | Some pos \<Rightarrow>
                        py_slice xs None (Some pos) @ store_entries_added st es (rl_entry li)
                          @ py_slice xs (Some pos) None)"
proof -
  from read_list_InrD [OF assms(1)] have l: "rl_list li < length st" by simp
  from read_list_InrD [OF assms(2)] have e: "rl_entries li < length st" by simp
  show ?thesis
  proof (cases "rl_position li")
    case None
    from AddToListBlock_run_store_append [OF assms None] l e
      read_list_old [OF assms(1)] read_list_old [OF assms(2)]
    show ?thesis
      by (simp add: None read_list_def nth_append)
  next
    case (Some pos)
    from AddToListBlock_run_store_insert [OF assms Some] l e
      read_list_old [OF assms(1)] read_list_old [OF assms(2)]
    show ?thesis
      by (simp add: Some read_list_def nth_append)
  qed
qed

lemma AddToDictionaryBlock_run_store_frame:
  assumes "read_dict st (rd_dictionary di) = Inr d"
    and "read_dict st (rd_entries di) = Inr en"
  shows "\<exists>st' r. AddToDictionaryBlock_run_store st di
                   = Inr (st', [(''updated_dictionary'', HRef r)])
           \<and> take (length st) st' = st
           \<and> read_dict st' (rd_dictionary di) = Inr d
           \<and> read_dict st' (rd_entries di) = Inr en
           \<and> length st \<le> r \<and> r \<noteq> rd_dictionary di \<and> r \<noteq> rd_entries di
           \<and> read_dict st' r =
               Inr (set_all_items
                      (if rd_value di \<noteq> HNone \<and> rd_key di \<noteq> []
                       then dict_setitem d (KStr (rd_key di)) (rd_value di) else d) en)"
proof -
  from read_dict_InrD [OF assms(1)] have l: "rd_dictionary di < length st" by simp
  from read_dict_InrD [OF assms(2)] have e: "rd_entries di < length st" by simp
  from AddToDictionaryBlock_run_store_eq [OF assms] l e
    read_dict_old [OF assms(1)] read_dict_old [OF assms(2)]
  show ?thesis
    by (simp add: read_dict_def nth_append)
qed

text \<open>
  Claim C7. On a store in which \<^verbatim>\<open>list\<close> and \<^verbatim>\<open>entries\<close> are lists (and
  \<^verbatim>\<open>entry\<close> refers to nothing outside the store), the list-insertion routine returns
  a store that extends the old one, so that every container that existed before the
  invocation, \<^verbatim>\<open>list\<close> and \<^verbatim>\<open>entries\<close> among them, is unchanged; the emitted
  \<^verbatim>\<open>updated_list\<close> is a reference to a container allocated during the invocation,
  so it aliases neither input, and it holds the spliced (or extended) list. The same holds
  for the dictionary-merge routine with \<^verbatim>\<open>dictionary\<close>, \<^verbatim>\<open>entries\<close> and the
  emitted \<^verbatim>\<open>updated_dictionary\<close>.
\<close>

theorem copy_before_mutate:
  "(read_list st (rl_list li) = Inr xs \<and> read_list st (rl_entries li) = Inr es
      \<and> valid_in st (rl_entry li) \<longrightarrow>
      (\<exists>st' r. AddToListBlock_run_store st li = Inr (st', [(''updated_list'', HRef r)])
           \<and> take (length st) st' = st
           \<and> read_list st' (rl_list li) = Inr xs
           \<and> read_list st' (rl_entries li) = Inr es
           \<and> length st \<le> r \<and> r \<noteq> rl_list li \<and> r \<noteq> rl_entries li
           \<and> read_list st' r =
               Inr (case rl_position li of
                      None \<Rightarrow> xs @ store_entries_added st es (rl_entry li)
                    | Some pos \<Rightarrow>
                        py_slice xs None (Some pos) @ store_entries_added st es (rl_entry li)
                          @ py_slice xs (Some pos) None)))
   \<and> (read_dict st (rd_dictionary di) = Inr d \<and> read_dict st (rd_entries di) = Inr en \<longrightarrow>
      (\<exists>st' r. AddToDictionaryBlock_run_store st di
                   = Inr (st', [(''updated_dictionary'', HRef r)])
           \<and> take (length st) st' = st
           \<and> read_dict st' (rd_dictionary di) = Inr d
           \<and> read_dict st' (rd_entries di) = Inr en
           \<and> length st \<le> r \<and> r \<noteq> rd_dictionary di \<and> r \<noteq> rd_entries di
           \<and> read_dict st' r =
               Inr (set_all_items
                      (if rd_value di \<noteq> HNone \<and> rd_key di \<noteq> []
                       then dict_setitem d (KStr (rd_key di)) (rd_value di) else d) en)))"
  using AddToListBlock_run_store_frame [of st li xs es]
    AddToDictionaryBlock_run_store_frame [of st di d en]
  by blast

theorem copy_before_mutate_witness:
  "read_list [CList [HStr ''a'', HStr ''b''], CList [HStr ''f'', HStr ''g'']] 0
     = Inr [HStr ''a'', HStr ''b'']
   \<and> read_list [CList [HStr ''a'', HStr ''b''], CList [HStr ''f'', HStr ''g'']] 1
     = Inr [HStr ''f'', HStr ''g'']
   \<and> valid_in [CList [HStr ''a'', HStr ''b''], CList [HStr ''f'', HStr ''g'']] (HStr ''e'')
   \<and> AddToListBlock_run_store
       [CList [HStr ''a'', HStr ''b''], CList [HStr ''f'', HStr ''g'']]
       \<lparr>rl_list = 0, rl_entry = HStr ''e'', rl_entries = 1, rl_position = Some 1\<rparr>
     = Inr ([CList [HStr ''a'', HStr ''b''], CList [HStr ''f'', HStr ''g''],
             CList [HStr ''f'', HStr ''g'', HStr ''e''],
             CList [HStr ''a'', HStr ''b''],
             CList [HStr ''a''],
             CList [HStr ''a'', HStr ''f'', HStr ''g'', HStr ''e''],
             CList [HStr ''b''],
             CList [HStr ''a'', HStr ''f'', HStr ''g'', HStr ''e'', HStr ''b'']],
            [(''updated_list'', HRef 7)])
   \<and> read_dict [CDict [(KStr ''k'', HInt 1)], CDict [(KStr ''k'', HInt 3)]] 0
     = Inr [(KStr ''k'', HInt 1)]
   \<and> read_dict [CDict [(KStr ''k'', HInt 1)], CDict [(KStr ''k'', HInt 3)]] 1
     = Inr [(KStr ''k'', HInt 3)]
   \<and> AddToDictionaryBlock_run_store
       [CDict [(KStr ''k'', HInt 1)], CDict [(KStr ''k'', HInt 3)]]
       \<lparr>rd_dictionary = 0, rd_key = ''k'', rd_value = HInt 2, rd_entries = 1\<rparr>
     = Inr ([CDict [(KStr ''k'', HInt 1)], CDict [(KStr ''k'', HInt 3)],
             CDict [(KStr ''k'', HInt 3)]],
            [(''updated_dictionary'', HRef 2)])"
  using copy_before_mutate
    [where st = "[CList [HStr ''a'', HStr ''b''], CList [HStr ''f'', HStr ''g'']]"
       and li = "\<lparr>rl_list = 0, rl_entry = HStr ''e'', rl_entries = 1, rl_position = Some 1\<rparr>"
       and xs = "[HStr ''a'', HStr ''b'']" and es = "[HStr ''f'', HStr ''g'']"]
    copy_before_mutate
    [where st = "[CDict [(KStr ''k'', HInt 1)], CDict [(KStr ''k'', HInt 3)]]"
       and di = "\<lparr>rd_dictionary = 0, rd_key = ''k'', rd_value = HInt 2, rd_entries = 1\<rparr>"
       and d = "[(KStr ''k'', HInt 1)]" and en = "[(KStr ''k'', HInt 3)]"]
  by (simp add: AddToListBlock_run_store_def AddToDictionaryBlock_run_store_def
        list_copy_def list_slice_def list_concat_def list_append_def dict_copy_def
        store_setitem_def alloc_def bind_res_def read_list_def read_dict_def
        py_slice_def slice_bound_def)

subsection \<open>Conformance fixtures\<close>

text \<open>The \<^verbatim>\<open>test_input\<close> and \<^verbatim>\<open>test_output\<close> pairs the blocks declare.\<close>

lemma StoreValueBlock_fixtures:
  "StoreValueBlock_run \<lparr>sv_input = PStr ''Hello, World!'', sv_data = PNone\<rparr>
     = ([(''output'', PStr ''Hello, World!'')], None)"
  "StoreValueBlock_run \<lparr>sv_input = PStr ''Hello, World!'', sv_data = PStr ''Existing Data''\<rparr>
     = ([(''output'', PStr ''Existing Data'')], None)"
  by (simp_all add: StoreValueBlock_run_def emit_def py_or_def)

lemma AddToListBlock_fixtures:
  "AddToListBlock_run
     \<lparr>al_list = [PInt 1, PStr ''string'', PDict [(KStr ''existing_key'', PStr ''existing_value'')]],
      al_entry = PDict [(KStr ''new_key'', PStr ''new_value'')], al_entries = [],
      al_position = Some 1\<rparr>
   = ([(''updated_list'',
        PList [PInt 1, PDict [(KStr ''new_key'', PStr ''new_value'')], PStr ''string'',
               PDict [(KStr ''existing_key'', PStr ''existing_value'')]])], None)"
  "AddToListBlock_run
     \<lparr>al_list = [], al_entry = PStr ''first_entry'', al_entries = [], al_position = None\<rparr>
   = ([(''updated_list'', PList [PStr ''first_entry''])], None)"
  "AddToListBlock_run
     \<lparr>al_list = [PStr ''a'', PStr ''b'', PStr ''c''], al_entry = PStr ''d'', al_entries = [],
      al_position = None\<rparr>
   = ([(''updated_list'', PList [PStr ''a'', PStr ''b'', PStr ''c'', PStr ''d''])], None)"
  "AddToListBlock_run
     \<lparr>al_list = [PStr ''a'', PStr ''b''], al_entry = PStr ''e'',
      al_entries = [PStr ''f'', PStr ''g''], al_position = Some 1\<rparr>
   = ([(''updated_list'', PList [PStr ''a'', PStr ''f'', PStr ''g'', PStr ''e'', PStr ''b''])], None)"
  by (simp_all add: AddToListBlock_run_def AddToListBlock_updated_list_def entries_added_def
        emit_def py_slice_def slice_bound_def)

lemma AddToDictionaryBlock_fixtures:
  "AddToDictionaryBlock_run
     \<lparr>ad_dictionary = [(KStr ''existing_key'', PStr ''existing_value'')],
      ad_key = ''new_key'', ad_value = PStr ''new_value'', ad_entries = []\<rparr>
   = ([(''updated_dictionary'',
        PDict [(KStr ''existing_key'', PStr ''existing_value''),
               (KStr ''new_key'', PStr ''new_value'')])], None)"
  "AddToDictionaryBlock_run
     \<lparr>ad_dictionary = [], ad_key = ''first_key'', ad_value = PStr ''first_value'',
      ad_entries = []\<rparr>
   = ([(''updated_dictionary'', PDict [(KStr ''first_key'', PStr ''first_value'')])], None)"
  "AddToDictionaryBlock_run
     \<lparr>ad_dictionary = [(KStr ''existing_key'', PStr ''existing_value'')],
      ad_key = [], ad_value = PNone,
      ad_entries = [(KStr ''new_key'', PStr ''new_value''),
                    (KStr ''first_key'', PStr ''first_value'')]\<rparr>
   = ([(''updated_dictionary'',
        PDict [(KStr ''existing_key'', PStr ''existing_value''),
               (KStr ''new_key'', PStr ''new_value''),
               (KStr ''first_key'', PStr ''first_value'')])], None)"
  by (simp_all add: AddToDictionaryBlock_run_def AddToDictionaryBlock_updated_dict_def emit_def)

lemma CreateListBlock_fixtures:
  "CreateListBlock_run
     \<lparr>cl_values = [PStr ''Alice'', PInt 25, PBool True], cl_max_size = None\<rparr>
   = ([(''list'', PList [PStr ''Alice'', PInt 25, PBool True])], None)"
  "CreateListBlock_run
     \<lparr>cl_values = [PInt 1, PInt 2, PInt 3, PInt 4, PInt 5], cl_max_size = Some 2\<rparr>
   = ([(''list'', PList [PInt 1, PInt 2]), (''list'', PList [PInt 3, PInt 4]),
       (''list'', PList [PInt 5])], None)"
  by (simp_all add: CreateListBlock_run_def chunk_size_def py_range_def eval_then_def
        try_except_def then_do_def emit_def py_slice_def slice_bound_def)

subsection \<open>List insertion in general\<close>

lemma py_slice_split:
  "py_slice xs None (Some pos) @ py_slice xs (Some pos) None = xs"
  by (simp add: py_slice_def)

lemma py_slice_in_range:
  assumes "0 \<le> pos" "pos \<le> int (length xs)"
  shows "py_slice xs None (Some pos) = take (nat pos) xs"
    and "py_slice xs (Some pos) None = drop (nat pos) xs"
  using assms by (simp_all add: py_slice_def slice_bound_def Let_def)

lemma AddToListBlock_run_eq:
  "AddToListBlock_run input_data =
     ([(''updated_list'',
        PList (case al_position input_data of
                 None \<Rightarrow> al_list input_data @ entries_added input_data
               | Some pos \<Rightarrow>
                   py_slice (al_list input_data) None (Some pos) @ entries_added input_data
                     @ py_slice (al_list input_data) (Some pos) None))], None)"
  by (simp add: AddToListBlock_run_def AddToListBlock_updated_list_def emit_def Let_def
        split: option.splits)

subsection \<open>The resolution order of the lookup\<close>

lemma items_with_key_dicts:
  "\<forall>x \<in> set xs. isinstance_dict x \<Longrightarrow>
     items_with_key key xs
       = Inr (List.map_filter (\<lambda>x. case x of PDict d \<Rightarrow> map_of d key | _ \<Rightarrow> None) xs)"
proof (induction xs)
  case Nil
  then show ?case by simp
next
  case (Cons x xs)
  then obtain d where x: "x = PDict d" by (cases x) auto
  from Cons have IH: "items_with_key key xs
       = Inr (List.map_filter (\<lambda>x. case x of PDict d \<Rightarrow> map_of d key | _ \<Rightarrow> None) xs)"
    by simp
  show ?case
    by (cases "map_of d key") (simp_all add: x IH)
qed

lemma vals_with_attr_total:
  "vals_with_attr class_attr key xs
     = Inr (List.map_filter (\<lambda>x. lookup_attr class_attr x key) xs)"
  by (induction xs)
     (auto simp: py_hasattr_def py_getattr_def split: option.splits)


lemma FindInDictionaryBlock_run_mapping:
  assumes "fd_input input_data = PDict d" and "map_of d (fd_key input_data) = Some v"
  shows "FindInDictionaryBlock_run loads class_attr input_data = ([(''output'', v)], None)"
  using assms
  by (simp add: FindInDictionaryBlock_run_def eval_then_def emit_def dict_with_key_def)

lemma FindInDictionaryBlock_run_index:
  assumes "fd_input input_data = PList xs" and "fd_key input_data = KInt i"
    and "0 \<le> i" and "i < int (length xs)"
  shows "FindInDictionaryBlock_run loads class_attr input_data
           = ([(''output'', xs ! nat i)], None)"
  using assms
  by (simp add: FindInDictionaryBlock_run_def eval_then_def emit_def dict_with_key_def
        py_index_def)

lemma FindInDictionaryBlock_run_index_out_of_range:
  assumes "fd_input input_data = PList xs" and "fd_key input_data = KInt i"
    and "i < 0 \<or> int (length xs) \<le> i"
  shows "FindInDictionaryBlock_run loads class_attr input_data
           = ([(''missing'', PList xs)], None)"
  using assms
  by (auto simp: FindInDictionaryBlock_run_def eval_then_def emit_def dict_with_key_def)

lemma FindInDictionaryBlock_run_empty_list:
  assumes "fd_input input_data = PList []" and "fd_key input_data = KStr k"
  shows "FindInDictionaryBlock_run loads class_attr input_data
           = ([(''output'', PList [])], None)"
  using assms
  by (simp add: FindInDictionaryBlock_run_def eval_then_def emit_def dict_with_key_def)

lemma FindInDictionaryBlock_run_list_of_dicts:
  assumes "fd_input input_data = PList (PDict d # xs)" and "fd_key input_data = KStr k"
    and "map_of d (KStr k) \<noteq> None"
    and "\<forall>x \<in> set xs. isinstance_dict x"
  shows "FindInDictionaryBlock_run loads class_attr input_data
           = ([(''output'',
                PList (List.map_filter
                         (\<lambda>x. case x of PDict d \<Rightarrow> map_of d (KStr k) | _ \<Rightarrow> None)
                         (PDict d # xs)))], None)"
proof -
  have "\<forall>x \<in> set (PDict d # xs). isinstance_dict x"
    using assms(4) by simp
  then have iw: "items_with_key (KStr k) (PDict d # xs)
      = Inr (List.map_filter
               (\<lambda>x. case x of PDict d \<Rightarrow> map_of d (KStr k) | _ \<Rightarrow> None) (PDict d # xs))"
    by (rule items_with_key_dicts)
  show ?thesis
    using assms(1-3)
    by (simp add: FindInDictionaryBlock_run_def Let_def eval_then_def emit_def
          dict_with_key_def iw del: items_with_key.simps List.map_filter_simps)
qed

lemma FindInDictionaryBlock_run_attributes:
  assumes "fd_input input_data = PList (x # xs)" and "fd_key input_data = KStr k"
    and "\<not> dict_with_key x (KStr k)"
  shows "FindInDictionaryBlock_run loads class_attr input_data
           = ([(''output'',
                PList (List.map_filter (\<lambda>x. lookup_attr class_attr x k) (x # xs)))], None)"
proof -
  have "\<not> dict_with_key (PList (x # xs)) (KStr k)"
    by (simp add: dict_with_key_def)
  with assms show ?thesis
    by (simp add: FindInDictionaryBlock_run_def Let_def eval_then_def emit_def
          vals_with_attr_total del: vals_with_attr.simps List.map_filter_simps)
qed

subsection \<open>Chunking\<close>

text \<open>With a positive \<^verbatim>\<open>max_size\<close> the routine yields the slices at the indices of
  the range, and the slices, put together again, are the values.\<close>

lemma yield_chunks_events:
  "yield_chunks vals m indices
     = (map (\<lambda>i. (''list'', PList (py_slice vals (Some i) (Some (i + m))))) indices, None)"
  by (induction indices) (simp_all add: then_do_def emit_def)

lemma CreateListBlock_run_chunks:
  assumes "cl_max_size input_data = Some m" and "0 < m"
  shows "CreateListBlock_run input_data
           = (map (\<lambda>i. (''list'', PList (py_slice (cl_values input_data) (Some i) (Some (i + m)))))
                (range_up 0 (int (length (cl_values input_data))) m), None)"
  using assms
  by (simp add: CreateListBlock_run_def chunk_size_def py_range_def eval_then_def
        try_except_def yield_chunks_events del: range_up.simps)

lemma chunk_slice:
  assumes "0 \<le> i" and "0 < m"
  shows "py_slice vals (Some i) (Some (i + m)) = take (nat m) (drop (nat i) vals)"
proof (cases "nat i \<le> length vals")
  case True
  with assms show ?thesis
    by (simp add: py_slice_def slice_bound_def Let_def min_def nat_add_distrib)
next
  case False
  with assms show ?thesis
    by (simp add: py_slice_def slice_bound_def Let_def min_def)
qed

lemma concat_chunks:
  "0 \<le> i \<Longrightarrow> 0 < m \<Longrightarrow>
     concat (map (\<lambda>i. py_slice vals (Some i) (Some (i + m))) (range_up i (int (length vals)) m))
       = drop (nat i) vals"
proof (induction i "int (length vals)" m rule: range_up.induct)
  case (1 i step)
  show ?case
  proof (cases "i < int (length vals)")
    case True
    have "drop (nat (i + step)) vals = drop (nat step) (drop (nat i) vals)"
      using "1.prems" by (simp add: nat_add_distrib add.commute)
    then have "take (nat step) (drop (nat i) vals) @ drop (nat (i + step)) vals
                 = drop (nat i) vals"
      by (simp only: append_take_drop_id)
    with True "1.prems" "1.hyps" show ?thesis
      by (subst range_up.simps) (simp add: chunk_slice del: range_up.simps)
  next
    case False
    with "1.prems" show ?thesis
      by (subst range_up.simps) simp
  qed
qed


lemma CreateListBlock_run_chunks_concat:
  assumes "cl_max_size input_data = Some m" and "0 < m"
  shows "concat (map (\<lambda>ev. case snd ev of PList chunk \<Rightarrow> chunk | _ \<Rightarrow> [])
                   (fst (CreateListBlock_run input_data))) = cl_values input_data"
proof -
  have "concat (map (\<lambda>ev. case snd ev of PList chunk \<Rightarrow> chunk | _ \<Rightarrow> [])
                   (fst (CreateListBlock_run input_data)))
        = concat (map (\<lambda>i. py_slice (cl_values input_data) (Some i) (Some (i + m)))
                    (range_up 0 (int (length (cl_values input_data))) m))"
    by (simp add: CreateListBlock_run_chunks [OF assms] comp_def del: range_up.simps)
  also have "\<dots> = drop (nat 0) (cl_values input_data)"
    using assms(2) by (intro concat_chunks) simp_all
  finally show ?thesis by simp
qed

subsection \<open>Declared output fields of the other blocks\<close>

lemma declared_fields:
  "emitted_fields (StoreValueBlock_run sv) \<subseteq> set StoreValueBlock_Output"
  "emitted_fields (PrintToConsoleBlock_run v) \<subseteq> set PrintToConsoleBlock_Output"
  "emitted_fields (NoteBlock_run t) \<subseteq> set NoteBlock_Output"
  "emitted_fields (CreateDictionaryBlock_run vals) \<subseteq> set CreateDictionaryBlock_Output"
  "emitted_fields (AddToDictionaryBlock_run ad) \<subseteq> set AddToDictionaryBlock_Output"
  "emitted_fields (AddToListBlock_run al) \<subseteq> set AddToListBlock_Output"
  by (simp_all add: emitted_fields_def StoreValueBlock_run_def PrintToConsoleBlock_run_def
        NoteBlock_run_def CreateDictionaryBlock_run_def AddToDictionaryBlock_run_def
        AddToListBlock_run_def emit_def then_do_def try_except_def
        StoreValueBlock_Output_def PrintToConsoleBlock_Output_def NoteBlock_Output_def
        CreateDictionaryBlock_Output_def AddToDictionaryBlock_Output_def
        AddToListBlock_Output_def)

lemma declared_fields_FindInListBlock:
  "emitted_fields (FindInListBlock_run fl) \<subseteq> set FindInListBlock_Output"
  by (cases "first_index (fl_list fl) (fl_value fl)")
     (simp_all add: emitted_fields_def FindInListBlock_run_def py_list_index_def
        eval_then_def try_except_def then_do_def emit_def raise_exn_def
        FindInListBlock_Output_def)

lemma declared_fields_FileStoreBlock:
  "emitted_fields (FileStoreBlock_run store_media_file graph_exec_id fs)
     \<subseteq> set FileStoreBlock_Output"
  by (cases "store_media_file graph_exec_id (fs_file_in fs) (fs_base_64 fs)")
     (simp_all add: emitted_fields_def FileStoreBlock_run_def eval_then_def emit_def
        raise_exn_def FileStoreBlock_Output_def)

lemma declared_fields_CreateListBlock:
  "emitted_fields (CreateListBlock_run cl) \<subseteq> set CreateListBlock_Output"
  by (cases "py_range 0 (int (length (cl_values cl))) (chunk_size cl)")
     (auto simp: emitted_fields_def CreateListBlock_run_def eval_then_def try_except_def
        then_do_def emit_def raise_exn_def is_Exception_def yield_chunks_events
        CreateListBlock_Output_def)

end
